theory Spec2Isabelle
  imports Main "HOL-Library.Word"
begin

section \<open>The storage service of pkg/services/store/service.go\<close>

text \<open>
  The Go file defines the storage service: the package's error values and constants,
  \<open>getOrgId\<close>, the four operations \<open>List\<close>, \<open>Read\<close>, \<open>Upload\<close> and \<open>Delete\<close>, and the
  constructors \<open>ProvideService\<close> and \<open>newStandardStorageService\<close>. Everything else the
  operations call (the namespace tree, the backends, the logger, the request validation
  and sanitization) lives outside the file. These collaborators are parameters of the
  model, and every call made on one of them is recorded, in order, in a trace.
\<close>

subsection \<open>Basic types\<close>

type_synonym byte = "8 word"

text \<open>Go's \<open>int64\<close>; organization ids are only compared and passed on.\<close>

type_synonym int64 = "64 word"

subsection \<open>Errors\<close>

text \<open>
  The five package-level error variables are distinct values. \<open>Errorf m\<close> is any other
  error value, carrying its message: the one \<open>Delete\<close> makes with \<open>fmt.Errorf\<close>, and the
  errors the collaborators return.
\<close>

datatype error =
    ErrUploadFeatureDisabled
  | ErrUnsupportedStorage
  | ErrUploadInternalError
  | ErrValidationFailed
  | ErrFileAlreadyExists
  | Errorf string

text \<open>The message of an error value (Go's \<open>err.Error()\<close>).\<close>

fun Error :: "error \<Rightarrow> string" where
  "Error ErrUploadFeatureDisabled = ''upload feature is disabled''"
| "Error ErrUnsupportedStorage = ''storage does not support upload operation''"
| "Error ErrUploadInternalError = ''upload internal error''"
| "Error ErrValidationFailed = ''request validation failed''"
| "Error ErrFileAlreadyExists = ''file exists''"
| "Error (Errorf m) = m"

text \<open>A call either returns or panics (a nil pointer dereference).\<close>

datatype 'a outcome = Returned 'a | Panicked

subsection \<open>Constants\<close>


definition RootResources :: string where
  "RootResources = ''resources''"

definition MAX_UPLOAD_SIZE :: nat where
  "MAX_UPLOAD_SIZE = 3 * 1024 * 1024"

subsection \<open>The two functions of package strings that Upload uses\<close>

definition HasPrefix :: "string \<Rightarrow> string \<Rightarrow> bool" where
  "HasPrefix s p = (length p \<le> length s \<and> take (length p) s = p)"

definition TrimPrefix :: "string \<Rightarrow> string \<Rightarrow> string" where
  "TrimPrefix s p = (if HasPrefix s p then drop (length p) s else s)"

subsection \<open>Requests and identities\<close>

text \<open>
  \<open>models.SignedInUser\<close>: the service reads its \<open>OrgId\<close> only. A \<open>*SignedInUser\<close> is an
  option, \<open>None\<close> being the nil pointer.
\<close>

record SignedInUser =
  OrgId :: int64

text \<open>\<open>EntityType\<close> is declared outside the file; the service never inspects it.\<close>

record 'et UploadRequest =
  Contents :: "byte list"
  MimeType :: string
  Path :: string
  CacheControl :: string
  ContentDisposition :: string
  Properties :: "string \<rightharpoonup> string"
  EntityType :: 'et
  OverwriteExistingFile :: bool

text \<open>The result of \<open>validateUploadRequest\<close>; Upload reads \<open>.ok\<close> and \<open>.reason\<close>.\<close>

record validationResult =
  ok :: bool
  reason :: string

subsection \<open>Collaborators and the trace of calls made on them\<close>

datatype logval = Str string | Err error

datatype level = LvlInfo | LvlWarn | LvlError

text \<open>
  One event per call that leaves the file: the tree's methods, the validation and the
  sanitization of a request, the logger, and the three backend operations.
\<close>

datatype 'c event =
    TreeGetRoot int64 string
  | TreeListFolder int64 string
  | TreeGetFile int64 string
  | CallValidate string
  | CallSanitize string
  | Log level string "(string \<times> logval) list"
  | BackendGet string
  | BackendUpsert "'c option"
  | BackendDelete string

text \<open>The state a call runs in: what the backends store, and the trace so far.\<close>

record ('s, 'c) world =
  store :: 's
  trace :: "'c event list"

definition emit :: "'c event \<Rightarrow> ('s, 'c) world \<Rightarrow> ('s, 'c) world" where
  "emit e w = w\<lparr>trace := trace w @ [e]\<rparr>"

text \<open>
  \<open>filestorage.FileStorage\<close>, the Backend: \<open>Get\<close> returns \<open>(*File, error)\<close> and only
  reads; \<open>Upsert\<close> takes the \<open>*UpsertFileCommand\<close> and \<open>Delete\<close> the path, both return
  an \<open>error\<close> and the contents they leave behind.
\<close>

record ('s, 'f, 'c) FileStorage =
  Get :: "'s \<Rightarrow> string \<Rightarrow> 'f option \<times> error option"
  Upsert :: "'s \<Rightarrow> 'c option \<Rightarrow> error option \<times> 's"
  Delete_fs :: "'s \<Rightarrow> string \<Rightarrow> error option \<times> 's"

text \<open>
  \<open>nestedTree\<close>, with the two fields \<open>newStandardStorageService\<close> sets; \<open>'rt\<close> is the
  type of a storage root (\<open>storageRuntime\<close>).
\<close>

record 'rt nestedTree =
  initializeOrgStorages :: "int64 \<Rightarrow> 'rt list"
  rootsByOrgId :: "int64 \<rightharpoonup> 'rt list"

record ('sql, 'rt) standardStorageService =
  sql :: "'sql option"
  tree :: "'rt nestedTree"

text \<open>
  What the operations take from outside the file: the constant
  \<open>accesscontrol.GlobalOrgID\<close>, the methods of \<open>nestedTree\<close>, and the two methods of the
  service that validate and sanitize an upload request. The \<open>context.Context\<close> argument
  is passed through to them unread and is left out. \<open>getRoot\<close> returns the root (nil when
  there is none) and a path; the roots a tree creates for an organization on first access
  stay inside the tree. \<open>ListFolder\<close> and \<open>GetFile\<close> read what the backends store.
\<close>

record ('rt, 's, 'f, 'c, 'fr, 'et) outside =
  GlobalOrgID :: int64
  getRoot :: "'rt nestedTree \<Rightarrow> int64 \<Rightarrow> string \<Rightarrow> ('s, 'f, 'c) FileStorage option \<times> string"
  ListFolder :: "'rt nestedTree \<Rightarrow> int64 \<Rightarrow> string \<Rightarrow> 's \<Rightarrow> 'fr option \<times> error option"
  GetFile :: "'rt nestedTree \<Rightarrow> int64 \<Rightarrow> string \<Rightarrow> 's \<Rightarrow> 'f option \<times> error option"
  validateUploadRequest ::
    "SignedInUser option \<Rightarrow> 'et UploadRequest \<Rightarrow> string \<Rightarrow> validationResult"
  sanitizeUploadRequest ::
    "SignedInUser option \<Rightarrow> 'et UploadRequest \<Rightarrow> string \<Rightarrow> 'c option \<times> error option"

subsection \<open>The operations\<close>

text \<open>\<open>getOrgId\<close>, lines 124 to 130.\<close>

definition getOrgId :: "int64 \<Rightarrow> SignedInUser option \<Rightarrow> int64" where
  "getOrgId globalOrg user =
     (case user of None \<Rightarrow> globalOrg | Some u \<Rightarrow> OrgId u)"

text \<open>\<open>List\<close> and \<open>Read\<close>, lines 132 to 141: the tree's answer is returned as it is.\<close>

definition List ::
  "('rt, 's, 'f, 'c, 'fr, 'et) outside \<Rightarrow> ('sql, 'rt) standardStorageService \<Rightarrow>
   SignedInUser option \<Rightarrow> string \<Rightarrow> ('s, 'c) world \<Rightarrow>
   ('fr option \<times> error option) \<times> ('s, 'c) world" where
  "List x s user path w =
     (let org = getOrgId (GlobalOrgID x) user
      in (ListFolder x (tree s) org path (store w), emit (TreeListFolder org path) w))"

definition Read ::
  "('rt, 's, 'f, 'c, 'fr, 'et) outside \<Rightarrow> ('sql, 'rt) standardStorageService \<Rightarrow>
   SignedInUser option \<Rightarrow> string \<Rightarrow> ('s, 'c) world \<Rightarrow>
   ('f option \<times> error option) \<times> ('s, 'c) world" where
  "Read x s user path w =
     (let org = getOrgId (GlobalOrgID x) user
      in (GetFile x (tree s) org path (store w), emit (TreeGetFile org path) w))"

text \<open>
  \<open>Upload\<close>, lines 155 to 198. Its last step, the commit of lines 192 to 197, is reached
  from two places and is a definition of its own. The request is a pointer: a nil request
  is first dereferenced at the prefix check, after the root lookup, and the call panics
  there.
\<close>

definition Upload_commit ::
  "('s, 'f, 'c) FileStorage \<Rightarrow> 'c option \<Rightarrow> 'et UploadRequest \<Rightarrow> ('s, 'c) world \<Rightarrow>
   error option outcome \<times> ('s, 'c) world" where
  "Upload_commit upload upsertCommand r w =
     (let (err, st) = Upsert upload (store w) upsertCommand;
          w' = emit (BackendUpsert upsertCommand) (w\<lparr>store := st\<rparr>)
      in case err of
           Some e \<Rightarrow>
             (Returned (Some ErrUploadInternalError),
              emit (Log LvlError ''failed while uploading the file''
                      [(''err'', Err e), (''path'', Str (Path r))]) w')
         | None \<Rightarrow> (Returned None, w'))"

definition Upload ::
  "('rt, 's, 'f, 'c, 'fr, 'et) outside \<Rightarrow> ('sql, 'rt) standardStorageService \<Rightarrow>
   SignedInUser option \<Rightarrow> 'et UploadRequest option \<Rightarrow> ('s, 'c) world \<Rightarrow>
   error option outcome \<times> ('s, 'c) world" where
  "Upload x s user req w0 =
     (let org = getOrgId (GlobalOrgID x) user;
          w1 = emit (TreeGetRoot org RootResources) w0
      in case fst (getRoot x (tree s) org RootResources) of
           None \<Rightarrow> (Returned (Some ErrUploadFeatureDisabled), w1)
         | Some upload \<Rightarrow>
            (case req of
               None \<Rightarrow> (Panicked, w1)
             | Some r \<Rightarrow>
                if \<not> HasPrefix (Path r) (RootResources @ ''/'')
                then (Returned (Some ErrUnsupportedStorage), w1)
                else
                  let storagePath = TrimPrefix (Path r) RootResources;
                      validationResult = validateUploadRequest x user r storagePath;
                      w2 = emit (CallValidate storagePath) w1
                  in if \<not> ok validationResult
                     then
                       (Returned (Some ErrValidationFailed),
                        emit (Log LvlWarn ''file upload validation failed''
                                [(''filetype'', Str (MimeType r)), (''path'', Str (Path r)),
                                 (''reason'', Str (reason validationResult))]) w2)
                     else
                       let (upsertCommand, err) = sanitizeUploadRequest x user r storagePath;
                           w3 = emit (CallSanitize storagePath) w2
                       in (case err of
                            Some e \<Rightarrow>
                              (Returned (Some ErrUploadInternalError),
                               emit (Log LvlError ''failed while sanitizing the upload request''
                                       [(''filetype'', Str (MimeType r)),
                                        (''path'', Str (Path r)), (''error'', Err e)]) w3)
                          | None \<Rightarrow>
                              let w4 = emit (Log LvlInfo ''uploading a file''
                                               [(''filetype'', Str (MimeType r)),
                                                (''path'', Str (Path r))]) w3
                              in if \<not> OverwriteExistingFile r
                                 then
                                   let (file, err) = Get upload (store w4) storagePath;
                                       w5 = emit (BackendGet storagePath) w4
                                   in (case err of
                                        Some e \<Rightarrow>
                                          (Returned (Some ErrUploadInternalError),
                                           emit (Log LvlError
                                                   ''failed while checking file existence''
                                                   [(''err'', Err e),
                                                    (''path'', Str (Path r))]) w5)
                                      | None \<Rightarrow>
                                          (case file of
                                             Some f \<Rightarrow>
                                               (Returned (Some ErrFileAlreadyExists), w5)
                                           | None \<Rightarrow>
                                               Upload_commit upload upsertCommand r w5))
                                 else Upload_commit upload upsertCommand r w4)))"

text \<open>\<open>Delete\<close>, lines 200 to 210.\<close>

definition Delete ::
  "('rt, 's, 'f, 'c, 'fr, 'et) outside \<Rightarrow> ('sql, 'rt) standardStorageService \<Rightarrow>
   SignedInUser option \<Rightarrow> string \<Rightarrow> ('s, 'c) world \<Rightarrow>
   error option outcome \<times> ('s, 'c) world" where
  "Delete x s user path w0 =
     (let org = getOrgId (GlobalOrgID x) user;
          w1 = emit (TreeGetRoot org RootResources) w0
      in case fst (getRoot x (tree s) org RootResources) of
           None \<Rightarrow> (Returned (Some (Errorf ''upload feature is not enabled'')), w1)
         | Some upload \<Rightarrow>
            let (err, st) = Delete_fs upload (store w1) path;
                w2 = emit (BackendDelete path) (w1\<lparr>store := st\<rparr>)
            in (case err of
                  Some e \<Rightarrow> (Returned (Some e), w2)
                | None \<Rightarrow> (Returned None, w2)))"

subsection \<open>Construction\<close>







subsection \<open>A small deployment to run the model on\<close>

text \<open>
  An in-memory backend (paths to bytes; a command is a path and its bytes), a backend
  whose every operation fails, and a tree that mounts the upload root for organization
  1 only; validation accepts every request and sanitization keeps the storage path and
  the payload. They instantiate the theorems below at concrete inputs.
\<close>

type_synonym mem = "string \<rightharpoonup> byte list"

type_synonym cmd = "string \<times> byte list"

definition memStorage :: "(mem, byte list, cmd) FileStorage" where
  "memStorage =
     \<lparr>Get = (\<lambda>m p. (m p, None)),
      Upsert = (\<lambda>m c. case c of
                   None \<Rightarrow> (Some (Errorf ''no command''), m)
                 | Some (p, b) \<Rightarrow> (None, m(p \<mapsto> b))),
      Delete_fs = (\<lambda>m p. (None, m(p := None)))\<rparr>"

definition brokenStorage :: "(mem, byte list, cmd) FileStorage" where
  "brokenStorage =
     \<lparr>Get = (\<lambda>m p. (None, Some (Errorf ''database is locked''))),
      Upsert = (\<lambda>m c. (Some (Errorf ''database is locked''), m)),
      Delete_fs = (\<lambda>m p. (Some (Errorf ''database is locked''), m))\<rparr>"

definition deployment ::
  "(mem, byte list, cmd) FileStorage \<Rightarrow> (unit, mem, byte list, cmd, string list, string) outside"
  where
  "deployment backend =
     \<lparr>GlobalOrgID = 0,
      getRoot = (\<lambda>t org name. if org = 1 \<and> name = ''resources''
                               then (Some backend, []) else (None, [])),
      ListFolder = (\<lambda>t org path m. (None, None)),
      GetFile = (\<lambda>t org path m. (m path, None)),
      validateUploadRequest = (\<lambda>user req storagePath. \<lparr>ok = True, reason = []\<rparr>),
      sanitizeUploadRequest = (\<lambda>user req storagePath. (Some (storagePath, Contents req), None))\<rparr>"

definition service0 :: "(unit, unit) standardStorageService" where
  "service0 =
     \<lparr>sql = None,
      tree = \<lparr>initializeOrgStorages = (\<lambda>orgId. []), rootsByOrgId = Map.empty\<rparr>\<rparr>"

definition member1 :: SignedInUser where
  "member1 = \<lparr>OrgId = 1\<rparr>"

definition request :: "string \<Rightarrow> byte list \<Rightarrow> bool \<Rightarrow> string UploadRequest" where
  "request p bytes overwrite =
     \<lparr>Contents = bytes, MimeType = ''image/png'', Path = p, CacheControl = [],
      ContentDisposition = [], Properties = Map.empty, EntityType = ''image'',
      OverwriteExistingFile = overwrite\<rparr>"

definition world0 :: "(mem, cmd) world" where
  "world0 = \<lparr>store = Map.empty(''/a.txt'' \<mapsto> [1, 2, 3]), trace = []\<rparr>"


subsection \<open>Request validation, as the specification describes it\<close>

text \<open>
  Modelled from the spec: the two policies of the Validate step that the specification
  leaves to the implementer, the characters and extensions allowed in a path and the
  MIME types allowed.
\<close>

record policy =
  pathAllowed :: "string \<Rightarrow> bool"
  mimeAllowed :: "string \<Rightarrow> bool"

text \<open>
  Modelled from the spec: the segments of a \<open>/\<close>-delimited path, the pieces between the
  delimiters.
\<close>

fun segments :: "string \<Rightarrow> string list" where
  "segments [] = [[]]"
| "segments (c # cs) =
     (if c = CHR ''/'' then [] # segments cs
      else (case segments cs of [] \<Rightarrow> [[c]] | seg # segs \<Rightarrow> (c # seg) # segs))"

text \<open>Modelled from the spec: a validation result is an outcome and a reason.\<close>

definition success :: validationResult where
  "success = \<lparr>ok = True, reason = []\<rparr>"

definition fail :: "string \<Rightarrow> validationResult" where
  "fail why = \<lparr>ok = False, reason = why\<rparr>"

text \<open>
  Modelled from the spec: \<open>validateUploadRequest\<close> is a method of the service that the
  file declares in its interface and calls, and whose body is outside the file. The
  specification's Validate step: the payload is non-empty and at most the maximum size;
  the path, after stripping the root prefix, has no \<open>..\<close> segment and is allowed by
  policy; the declared MIME type is allowed by policy. A failure carries a reason.
\<close>

definition validateUploadRequest_spec ::
  "policy \<Rightarrow> SignedInUser option \<Rightarrow> 'et UploadRequest \<Rightarrow> string \<Rightarrow> validationResult" where
  "validateUploadRequest_spec pol user req storagePath =
     (if Contents req = [] then fail ''empty payload''
      else if MAX_UPLOAD_SIZE < length (Contents req) then fail ''payload too large''
      else if ''..'' \<in> set (segments storagePath) then fail ''path traversal''
      else if \<not> pathAllowed pol storagePath then fail ''path not allowed''
      else if \<not> mimeAllowed pol (MimeType req) then fail ''mime type not allowed''
      else success)"

text \<open>The small deployment with the specification's validation, every path and type allowed.\<close>

definition openPolicy :: policy where
  "openPolicy = \<lparr>pathAllowed = (\<lambda>p. True), mimeAllowed = (\<lambda>m. True)\<rparr>"

definition validating ::
  "(mem, byte list, cmd) FileStorage \<Rightarrow> (unit, mem, byte list, cmd, string list, string) outside"
  where
  "validating backend =
     (deployment backend)\<lparr>validateUploadRequest := validateUploadRequest_spec openPolicy\<rparr>"

subsection \<open>Reading a trace\<close>

text \<open>The calls of a trace that reached a backend.\<close>

fun isBackendCall :: "'c event \<Rightarrow> bool" where
  "isBackendCall (BackendGet p) = True"
| "isBackendCall (BackendUpsert c) = True"
| "isBackendCall (BackendDelete p) = True"
| "isBackendCall e = False"

definition backendCalls :: "'c event list \<Rightarrow> 'c event list" where
  "backendCalls evs = filter isBackendCall evs"

section \<open>Properties\<close>

subsection \<open>Prefixes\<close>

lemma HasPrefix_iff: "HasPrefix s p \<longleftrightarrow> (\<exists>t. s = p @ t)"
  unfolding HasPrefix_def
  by (metis append_eq_conv_conj append_take_drop_id length_append le_add1)

lemma TrimPrefix_append: "TrimPrefix (p @ t) p = t"
  by (simp add: TrimPrefix_def HasPrefix_def)

subsection \<open>The stages of Upload and Delete\<close>

lemma Upload_feature_disabled:
  assumes "fst (getRoot x (tree s) (getOrgId (GlobalOrgID x) user) RootResources) = None"
  shows "Upload x s user req w =
           (Returned (Some ErrUploadFeatureDisabled),
            w\<lparr>trace := trace w @ [TreeGetRoot (getOrgId (GlobalOrgID x) user) RootResources]\<rparr>)"
  using assms by (simp add: Upload_def emit_def Let_def)

lemma Delete_feature_disabled:
  assumes "fst (getRoot x (tree s) (getOrgId (GlobalOrgID x) user) RootResources) = None"
  shows "Delete x s user path w =
           (Returned (Some (Errorf ''upload feature is not enabled'')),
            w\<lparr>trace := trace w @ [TreeGetRoot (getOrgId (GlobalOrgID x) user) RootResources]\<rparr>)"
  using assms by (simp add: Delete_def emit_def Let_def)

lemma Upload_validation_failed:
  assumes "fst (getRoot x (tree s) (getOrgId (GlobalOrgID x) user) RootResources) = Some upload"
    and "HasPrefix (Path r) (RootResources @ ''/'')"
    and "\<not> ok (validateUploadRequest x user r (TrimPrefix (Path r) RootResources))"
  shows "Upload x s user (Some r) w =
           (Returned (Some ErrValidationFailed),
            w\<lparr>trace := trace w @
               [TreeGetRoot (getOrgId (GlobalOrgID x) user) RootResources,
                CallValidate (TrimPrefix (Path r) RootResources),
                Log LvlWarn ''file upload validation failed''
                  [(''filetype'', Str (MimeType r)), (''path'', Str (Path r)),
                   (''reason'', Str (reason (validateUploadRequest x user r
                       (TrimPrefix (Path r) RootResources))))]]\<rparr>)"
  using assms by (simp add: Upload_def emit_def Let_def)

lemma Upload_commit_eq:
  "Upload_commit upload c r w =
     (Returned (case fst (Upsert upload (store w) c) of
                  None \<Rightarrow> None | Some e \<Rightarrow> Some ErrUploadInternalError),
      w\<lparr>store := snd (Upsert upload (store w) c),
        trace := trace w @ BackendUpsert c #
          (case fst (Upsert upload (store w) c) of
             None \<Rightarrow> []
           | Some e \<Rightarrow> [Log LvlError ''failed while uploading the file''
                          [(''err'', Err e), (''path'', Str (Path r))]])\<rparr>)"
  by (simp add: Upload_commit_def emit_def Let_def split: prod.splits option.splits)

lemma Upload_reaches_overwrite_check:
  assumes "fst (getRoot x (tree s) (getOrgId (GlobalOrgID x) user) RootResources) = Some upload"
    and "HasPrefix (Path r) (RootResources @ ''/'')"
    and "ok (validateUploadRequest x user r (TrimPrefix (Path r) RootResources))"
    and "sanitizeUploadRequest x user r (TrimPrefix (Path r) RootResources) = (c, None)"
  shows "Upload x s user (Some r) w =
     (let sp = TrimPrefix (Path r) RootResources;
          w4 = w\<lparr>trace := trace w @
                 [TreeGetRoot (getOrgId (GlobalOrgID x) user) RootResources,
                  CallValidate sp, CallSanitize sp,
                  Log LvlInfo ''uploading a file''
                    [(''filetype'', Str (MimeType r)), (''path'', Str (Path r))]]\<rparr>
      in if OverwriteExistingFile r then Upload_commit upload c r w4
         else (case Get upload (store w) sp of
                 (file, Some e) \<Rightarrow>
                   (Returned (Some ErrUploadInternalError),
                    w4\<lparr>trace := trace w4 @
                      [BackendGet sp,
                       Log LvlError ''failed while checking file existence''
                         [(''err'', Err e), (''path'', Str (Path r))]]\<rparr>)
               | (Some f, None) \<Rightarrow>
                   (Returned (Some ErrFileAlreadyExists),
                    w4\<lparr>trace := trace w4 @ [BackendGet sp]\<rparr>)
               | (None, None) \<Rightarrow>
                   Upload_commit upload c r (w4\<lparr>trace := trace w4 @ [BackendGet sp]\<rparr>)))"
  using assms
  by (simp add: Upload_def emit_def Let_def split: prod.splits option.splits)

subsection \<open>Facts about the small deployment\<close>

lemma deployment_mounted:
  "fst (getRoot (deployment b) (tree service0)
          (getOrgId (GlobalOrgID (deployment b)) (Some member1)) RootResources) = Some b"
  by (simp add: deployment_def getOrgId_def member1_def RootResources_def)

lemma validating_mounted:
  "fst (getRoot (validating b) (tree service0)
          (getOrgId (GlobalOrgID (validating b)) (Some member1)) RootResources) = Some b"
  by (simp add: validating_def deployment_def getOrgId_def member1_def RootResources_def)

lemma validating_spec:
  "validateUploadRequest (validating b) = validateUploadRequest_spec openPolicy"
  by (simp add: validating_def)

lemma deployment_not_mounted:
  "fst (getRoot (deployment b) (tree service0)
          (getOrgId (GlobalOrgID (deployment b)) None) RootResources) = None"
  by (simp add: deployment_def getOrgId_def)

lemma request_prefixed:
  "HasPrefix (Path (request (''resources/'' @ p) bytes ow)) (RootResources @ ''/'')"
  by (simp add: request_def HasPrefix_def RootResources_def)

lemma request_storagePath:
  "TrimPrefix (Path (request (''resources/'' @ p) bytes ow)) RootResources = CHR ''/'' # p"
  by (simp add: request_def TrimPrefix_def HasPrefix_def RootResources_def)

subsection \<open>The overwrite check and the commit\<close>





subsection \<open>Uploads outside the upload root\<close>

text \<open>
  C6. When the upload root is mounted for the caller's organization and the request path
  does not start with the root's name followed by \<open>/\<close>, Upload returns
  \<open>ErrUnsupportedStorage\<close>. The only call it has made is the root lookup: the request is
  neither validated nor sanitized, and no backend operation runs.
\<close>

theorem Upload_unsupported_storage:
  assumes mounted:
      "fst (getRoot x (tree s) (getOrgId (GlobalOrgID x) user) RootResources) = Some upload"
    and not_prefixed: "\<not> HasPrefix (Path r) (RootResources @ ''/'')"
  shows "Upload x s user (Some r) w =
           (Returned (Some ErrUnsupportedStorage),
            w\<lparr>trace := trace w @
               [TreeGetRoot (getOrgId (GlobalOrgID x) user) RootResources]\<rparr>)"
  using assms by (simp add: Upload_def emit_def Let_def)

theorem Upload_unsupported_storage_witness:
  "Upload (deployment memStorage) service0 (Some member1)
     (Some (request ''public-static/img/a.png'' [9] True)) world0 =
   (Returned (Some ErrUnsupportedStorage),
    world0\<lparr>trace := [TreeGetRoot 1 ''resources'']\<rparr>)"
proof -
  have np: "\<not> HasPrefix (Path (request ''public-static/img/a.png'' [9] True))
              (RootResources @ ''/'')"
    by (simp add: request_def HasPrefix_def RootResources_def)
  show ?thesis
    using Upload_unsupported_storage [OF deployment_mounted [of memStorage] np, where w = world0]
    by (simp add: world0_def getOrgId_def member1_def deployment_def RootResources_def)
qed

subsection \<open>Delete forwards the path\<close>

text \<open>
  C9. When the upload root is mounted, Delete hands the caller's path to the backend's
  \<open>Delete\<close> as it is, whatever the path: it makes no prefix check, strips nothing and
  validates nothing. It returns the backend's result.
\<close>

theorem Delete_forwards_path:
  assumes mounted:
      "fst (getRoot x (tree s) (getOrgId (GlobalOrgID x) user) RootResources) = Some upload"
  shows "Delete x s user path w =
           (Returned (fst (Delete_fs upload (store w) path)),
            w\<lparr>store := snd (Delete_fs upload (store w) path),
              trace := trace w @
               [TreeGetRoot (getOrgId (GlobalOrgID x) user) RootResources,
                BackendDelete path]\<rparr>)"
  using assms
  by (simp add: Delete_def emit_def Let_def split: prod.splits option.splits)

theorem Delete_forwards_path_witness:
  "Delete (deployment memStorage) service0 (Some member1) ''public-static/../a.txt'' world0 =
   (Returned None,
    world0\<lparr>trace := [TreeGetRoot 1 ''resources'', BackendDelete ''public-static/../a.txt'']\<rparr>)"
proof -
  have "store world0 ''public-static/../a.txt'' = None"
    by (simp add: world0_def)
  then have "(store world0)(''public-static/../a.txt'' := None) = store world0"
    by (metis fun_upd_triv)
  then show ?thesis
    using Delete_forwards_path [OF deployment_mounted [of memStorage], where w = world0
        and path = "''public-static/../a.txt''"]
    by (simp add: memStorage_def getOrgId_def member1_def deployment_def RootResources_def)
      (simp add: world0_def)
qed

subsection \<open>One error for every validation failure\<close>

text \<open>
  C7. Two uploads that both fail validation, with any validators, reasons, callers and
  requests, return the same value, \<open>ErrValidationFailed\<close>, whose message is fixed. The
  reason appears in the warning that is logged, and nowhere in the returned value.
\<close>

theorem validation_failure_is_generic:
  assumes m1: "fst (getRoot x1 (tree s1) (getOrgId (GlobalOrgID x1) user1) RootResources)
                 = Some upload1"
    and p1: "HasPrefix (Path r1) (RootResources @ ''/'')"
    and f1: "\<not> ok (validateUploadRequest x1 user1 r1 (TrimPrefix (Path r1) RootResources))"
    and m2: "fst (getRoot x2 (tree s2) (getOrgId (GlobalOrgID x2) user2) RootResources)
                 = Some upload2"
    and p2: "HasPrefix (Path r2) (RootResources @ ''/'')"
    and f2: "\<not> ok (validateUploadRequest x2 user2 r2 (TrimPrefix (Path r2) RootResources))"
  shows "fst (Upload x1 s1 user1 (Some r1) w1) = Returned (Some ErrValidationFailed) \<and>
         fst (Upload x2 s2 user2 (Some r2) w2) = fst (Upload x1 s1 user1 (Some r1) w1) \<and>
         Error ErrValidationFailed = ''request validation failed'' \<and>
         trace (snd (Upload x1 s1 user1 (Some r1) w1)) =
           trace w1 @
             [TreeGetRoot (getOrgId (GlobalOrgID x1) user1) RootResources,
              CallValidate (TrimPrefix (Path r1) RootResources),
              Log LvlWarn ''file upload validation failed''
                [(''filetype'', Str (MimeType r1)), (''path'', Str (Path r1)),
                 (''reason'', Str (reason (validateUploadRequest x1 user1 r1
                     (TrimPrefix (Path r1) RootResources))))]]"
  by (simp add: Upload_validation_failed [OF m1 p1 f1] Upload_validation_failed [OF m2 p2 f2])

theorem validation_failure_is_generic_witness:
  "fst (Upload (validating memStorage) service0 (Some member1)
          (Some (request ''resources/../secret'' [9] False)) world0) =
     Returned (Some ErrValidationFailed) \<and>
   fst (Upload (validating memStorage) service0 (Some member1)
          (Some (request ''resources/empty.png'' [] True)) world0) =
   fst (Upload (validating memStorage) service0 (Some member1)
          (Some (request ''resources/../secret'' [9] False)) world0) \<and>
   reason (validateUploadRequest (validating memStorage) (Some member1)
             (request ''resources/../secret'' [9] False) ''/../secret'') = ''path traversal'' \<and>
   reason (validateUploadRequest (validating memStorage) (Some member1)
             (request ''resources/empty.png'' [] True) ''/empty.png'') = ''empty payload''"
proof -
  let ?x = "validating memStorage"
  let ?r1 = "request (''resources/'' @ ''../secret'') [9] False"
  let ?r2 = "request (''resources/'' @ ''empty.png'') [] True"
  have v1: "validateUploadRequest ?x (Some member1) ?r1 ''/../secret'' = fail ''path traversal''"
    by (simp add: validating_spec validateUploadRequest_spec_def request_def
        MAX_UPLOAD_SIZE_def)
  have v2: "validateUploadRequest ?x (Some member1) ?r2 ''/empty.png'' = fail ''empty payload''"
    by (simp add: validating_spec validateUploadRequest_spec_def request_def)
  have f1: "\<not> ok (validateUploadRequest ?x (Some member1) ?r1
                 (TrimPrefix (Path ?r1) RootResources))"
    unfolding request_storagePath using v1 by (simp add: fail_def)
  have f2: "\<not> ok (validateUploadRequest ?x (Some member1) ?r2
                 (TrimPrefix (Path ?r2) RootResources))"
    unfolding request_storagePath using v2 by (simp add: fail_def)
  show ?thesis
    using validation_failure_is_generic [OF validating_mounted request_prefixed f1
        validating_mounted request_prefixed f2, where ?w1.0 = world0 and ?w2.0 = world0]
      v1 v2
    by (simp add: fail_def)
qed

subsection \<open>Validation of the payload and the path\<close>

lemma segments_append_slash:
  "CHR ''/'' \<notin> set a \<Longrightarrow> segments (a @ CHR ''/'' # t) = a # segments t"
  by (induction a) (auto split: list.splits)

lemma traversal_survives_trim:
  assumes "HasPrefix p (RootResources @ ''/'')" and "''..'' \<in> set (segments p)"
  shows "''..'' \<in> set (segments (TrimPrefix p RootResources))"
proof -
  from assms(1) obtain t where p: "p = (RootResources @ ''/'') @ t"
    by (auto simp: HasPrefix_iff)
  have a: "segments p = RootResources # segments t"
    unfolding p using segments_append_slash [of RootResources t]
    by (simp add: RootResources_def)
  have b: "TrimPrefix p RootResources = CHR ''/'' # t"
    unfolding p using TrimPrefix_append [of RootResources "CHR ''/'' # t"] by simp
  from assms(2) a have "''..'' \<in> set (segments t)"
    by (simp add: RootResources_def)
  then show ?thesis by (simp add: b)
qed

text \<open>
  C4. With the validation of the specification, an upload into the mounted root whose
  payload is longer than \<open>MAX_UPLOAD_SIZE\<close> returns \<open>ErrValidationFailed\<close>; no backend
  operation runs, so \<open>Upsert\<close> is not invoked.
\<close>

theorem Upload_rejects_oversized_payload:
  assumes spec: "validateUploadRequest x = validateUploadRequest_spec pol"
    and mounted:
      "fst (getRoot x (tree s) (getOrgId (GlobalOrgID x) user) RootResources) = Some upload"
    and prefixed: "HasPrefix (Path r) (RootResources @ ''/'')"
    and oversized: "MAX_UPLOAD_SIZE < length (Contents r)"
  shows "Upload x s user (Some r) w =
           (Returned (Some ErrValidationFailed),
            w\<lparr>trace := trace w @
               [TreeGetRoot (getOrgId (GlobalOrgID x) user) RootResources,
                CallValidate (TrimPrefix (Path r) RootResources),
                Log LvlWarn ''file upload validation failed''
                  [(''filetype'', Str (MimeType r)), (''path'', Str (Path r)),
                   (''reason'', Str ''payload too large'')]]\<rparr>) \<and>
         backendCalls (trace (snd (Upload x s user (Some r) w))) = backendCalls (trace w)"
proof -
  from oversized have ne: "Contents r \<noteq> []" by auto
  have v: "validateUploadRequest x user r (TrimPrefix (Path r) RootResources) =
             fail ''payload too large''"
    using oversized ne by (simp add: spec validateUploadRequest_spec_def)
  then have nok: "\<not> ok (validateUploadRequest x user r (TrimPrefix (Path r) RootResources))"
    by (simp add: fail_def)
  show ?thesis
    using v by (simp add: Upload_validation_failed [OF mounted prefixed nok] fail_def
        backendCalls_def)
qed

theorem Upload_rejects_oversized_payload_witness:
  "MAX_UPLOAD_SIZE < length (Contents (request ''resources/big.png'' (replicate 3145729 0) True))
   \<and> Upload (validating memStorage) service0 (Some member1)
     (Some (request ''resources/big.png'' (replicate 3145729 0) True)) world0 =
   (Returned (Some ErrValidationFailed),
    world0\<lparr>trace :=
       [TreeGetRoot 1 ''resources'', CallValidate ''/big.png'',
        Log LvlWarn ''file upload validation failed''
          [(''filetype'', Str ''image/png''), (''path'', Str ''resources/big.png''),
           (''reason'', Str ''payload too large'')]]\<rparr>)"
proof -
  let ?r = "request (''resources/'' @ ''big.png'') (replicate 3145729 0) True"
  have big: "MAX_UPLOAD_SIZE < length (Contents ?r)"
    by (simp add: request_def MAX_UPLOAD_SIZE_def)
  show ?thesis
    using big Upload_rejects_oversized_payload
      [OF validating_spec validating_mounted request_prefixed big, where w = world0]
    by (simp add: request_storagePath)
      (simp add: request_def world0_def getOrgId_def member1_def validating_def deployment_def
        RootResources_def TrimPrefix_def HasPrefix_def)
qed

text \<open>
  C5. With the validation of the specification, an upload into the mounted root whose
  path has a \<open>..\<close> segment returns \<open>ErrValidationFailed\<close>; no backend operation runs, so
  \<open>Upsert\<close> is not invoked.
\<close>

theorem Upload_rejects_traversal:
  assumes spec: "validateUploadRequest x = validateUploadRequest_spec pol"
    and mounted:
      "fst (getRoot x (tree s) (getOrgId (GlobalOrgID x) user) RootResources) = Some upload"
    and prefixed: "HasPrefix (Path r) (RootResources @ ''/'')"
    and traversal: "''..'' \<in> set (segments (Path r))"
  shows "Upload x s user (Some r) w =
           (Returned (Some ErrValidationFailed),
            w\<lparr>trace := trace w @
               [TreeGetRoot (getOrgId (GlobalOrgID x) user) RootResources,
                CallValidate (TrimPrefix (Path r) RootResources),
                Log LvlWarn ''file upload validation failed''
                  [(''filetype'', Str (MimeType r)), (''path'', Str (Path r)),
                   (''reason'', Str (reason (validateUploadRequest_spec pol user r
                       (TrimPrefix (Path r) RootResources))))]]\<rparr>) \<and>
         backendCalls (trace (snd (Upload x s user (Some r) w))) = backendCalls (trace w)"
proof -
  have "''..'' \<in> set (segments (TrimPrefix (Path r) RootResources))"
    using prefixed traversal by (rule traversal_survives_trim)
  then have nok: "\<not> ok (validateUploadRequest x user r (TrimPrefix (Path r) RootResources))"
    by (simp add: spec validateUploadRequest_spec_def fail_def)
  show ?thesis
    by (simp add: Upload_validation_failed [OF mounted prefixed nok] backendCalls_def spec)
qed

theorem Upload_rejects_traversal_witness:
  "''..'' \<in> set (segments (Path (request ''resources/../secret'' [9] True))) \<and>
   Upload (validating memStorage) service0 (Some member1)
     (Some (request ''resources/../secret'' [9] True)) world0 =
   (Returned (Some ErrValidationFailed),
    world0\<lparr>trace :=
       [TreeGetRoot 1 ''resources'', CallValidate ''/../secret'',
        Log LvlWarn ''file upload validation failed''
          [(''filetype'', Str ''image/png''), (''path'', Str ''resources/../secret''),
           (''reason'', Str ''path traversal'')]]\<rparr>)"
proof -
  let ?r = "request (''resources/'' @ ''../secret'') [9] True"
  have tr: "''..'' \<in> set (segments (Path ?r))"
    by (simp add: request_def)
  have rs: "reason (validateUploadRequest_spec openPolicy (Some member1) ?r ''/../secret'') =
              ''path traversal''"
    by (simp add: validateUploadRequest_spec_def request_def MAX_UPLOAD_SIZE_def fail_def)
  show ?thesis
    using tr Upload_rejects_traversal
      [OF validating_spec validating_mounted request_prefixed tr, where w = world0]
    using rs by (simp add: request_storagePath)
      (simp add: request_def world0_def getOrgId_def member1_def validating_def deployment_def
        RootResources_def TrimPrefix_def HasPrefix_def)
qed

subsection \<open>What Delete returns\<close>

text \<open>
  C2. For a caller whose organization has no upload root (here the anonymous caller of
  the small deployment), Upload returns \<open>ErrUploadFeatureDisabled\<close>, while Delete returns
  another error value, made on the spot, with another message. Neither reaches a backend
  (lemmas \<open>Upload_feature_disabled\<close> and \<open>Delete_feature_disabled\<close>).
\<close>

theorem Delete_feature_disabled_value:
  "fst (Delete (deployment memStorage) service0 None ''resources/a.txt'' world0) =
     Returned (Some (Errorf ''upload feature is not enabled'')) \<and>
   fst (Upload (deployment memStorage) service0 None
          (Some (request ''resources/a.txt'' [9] False)) world0) =
     Returned (Some ErrUploadFeatureDisabled) \<and>
   fst (Delete (deployment memStorage) service0 None ''resources/a.txt'' world0) \<noteq>
   fst (Upload (deployment memStorage) service0 None
          (Some (request ''resources/a.txt'' [9] False)) world0) \<and>
   Error (Errorf ''upload feature is not enabled'') \<noteq> Error ErrUploadFeatureDisabled"
  by (simp add: Delete_feature_disabled [OF deployment_not_mounted]
      Upload_feature_disabled [OF deployment_not_mounted])

lemma Upload_backend_error_is_internal:
  assumes "fst (getRoot x (tree s) (getOrgId (GlobalOrgID x) user) RootResources) = Some upload"
    and "HasPrefix (Path r) (RootResources @ ''/'')"
    and "ok (validateUploadRequest x user r (TrimPrefix (Path r) RootResources))"
    and "sanitizeUploadRequest x user r (TrimPrefix (Path r) RootResources) = (c, None)"
    and "OverwriteExistingFile r \<or>
         Get upload (store w) (TrimPrefix (Path r) RootResources) = (None, None)"
    and "fst (Upsert upload (store w) c) = Some e"
  shows "fst (Upload x s user (Some r) w) = Returned (Some ErrUploadInternalError)"
  using assms(5,6)
  by (auto simp: Upload_reaches_overwrite_check [OF assms(1-4)] Let_def Upload_commit_eq)

lemma Delete_backend_error_verbatim:
  assumes "fst (getRoot x (tree s) (getOrgId (GlobalOrgID x) user) RootResources) = Some upload"
    and "fst (Delete_fs upload (store w) path) = Some e"
  shows "fst (Delete x s user path w) = Returned (Some e)"
  using assms by (auto simp: Delete_def emit_def Let_def split: prod.splits)

text \<open>
  C3. When the backend's \<open>Upsert\<close> fails, Upload returns \<open>ErrUploadInternalError\<close>; when
  the backend's \<open>Delete\<close> fails, Delete returns the backend's own error value (lemmas
  \<open>Upload_backend_error_is_internal\<close> and \<open>Delete_backend_error_verbatim\<close>). Evaluated
  on the deployment whose backend always fails.
\<close>

theorem Delete_returns_backend_error:
  "fst (Delete (deployment brokenStorage) service0 (Some member1) ''resources/a.txt'' world0) =
     Returned (Some (Errorf ''database is locked'')) \<and>
   Errorf ''database is locked'' \<noteq> ErrUploadInternalError \<and>
   fst (Upload (deployment brokenStorage) service0 (Some member1)
          (Some (request ''resources/a.txt'' [9] True)) world0) =
     Returned (Some ErrUploadInternalError)"
proof -
  let ?x = "deployment brokenStorage"
  let ?r = "request ''resources/a.txt'' [9] True"
  have d: "fst (Delete_fs brokenStorage (store world0) ''resources/a.txt'') =
             Some (Errorf ''database is locked'')"
    by (simp add: brokenStorage_def)
  have p: "HasPrefix (Path ?r) (RootResources @ ''/'')"
    by (simp add: request_def HasPrefix_def RootResources_def)
  have sp: "TrimPrefix (Path ?r) RootResources = ''/a.txt''"
    by (simp add: request_def TrimPrefix_def HasPrefix_def RootResources_def)
  have v: "ok (validateUploadRequest ?x (Some member1) ?r (TrimPrefix (Path ?r) RootResources))"
    by (simp add: deployment_def)
  have sn: "sanitizeUploadRequest ?x (Some member1) ?r (TrimPrefix (Path ?r) RootResources) =
             (Some (''/a.txt'', [9]), None)"
    unfolding sp by (simp add: deployment_def request_def)
  have ow: "OverwriteExistingFile ?r \<or>
            Get brokenStorage (store world0) (TrimPrefix (Path ?r) RootResources) = (None, None)"
    by (simp add: request_def)
  have u: "fst (Upsert brokenStorage (store world0) (Some (''/a.txt'', [9]))) =
             Some (Errorf ''database is locked'')"
    by (simp add: brokenStorage_def)
  show ?thesis
    using Delete_backend_error_verbatim [OF deployment_mounted d]
      Upload_backend_error_is_internal [OF deployment_mounted p v sn ow u]
    by simp
qed

subsection \<open>The caller's organization\<close>

lemma Upload_trace_starts:
  "\<exists>evs. trace (snd (Upload x s user req w)) =
     trace w @ TreeGetRoot (getOrgId (GlobalOrgID x) user) RootResources # evs"
proof (cases "fst (getRoot x (tree s) (getOrgId (GlobalOrgID x) user) RootResources)")
  case None
  then show ?thesis by (simp add: Upload_feature_disabled)
next
  case (Some upload)
  note mounted = this
  show ?thesis
  proof (cases req)
    case None
    with mounted show ?thesis by (simp add: Upload_def emit_def Let_def)
  next
    case (Some r)
    show ?thesis
    proof (cases "HasPrefix (Path r) (RootResources @ ''/'')")
      case False
      with mounted Some show ?thesis by (simp add: Upload_def emit_def Let_def)
    next
      case True
      note prefixed = this
      show ?thesis
      proof (cases "ok (validateUploadRequest x user r (TrimPrefix (Path r) RootResources))")
        case False
        then show ?thesis
          by (simp add: Some Upload_validation_failed [OF mounted prefixed])
      next
        case True
        note valid = this
        obtain c err where sn:
          "sanitizeUploadRequest x user r (TrimPrefix (Path r) RootResources) = (c, err)"
          by (cases "sanitizeUploadRequest x user r (TrimPrefix (Path r) RootResources)")
        show ?thesis
        proof (cases err)
          case (Some e)
          with mounted prefixed valid sn \<open>req = Some r\<close> show ?thesis
            by (simp add: Upload_def emit_def Let_def)
        next
          case None
          show ?thesis
            unfolding \<open>req = Some r\<close>
              Upload_reaches_overwrite_check [OF mounted prefixed valid sn [unfolded None]]
            by (simp add: Let_def Upload_commit_eq split: option.splits prod.splits)
        qed
      qed
    qed
  qed
qed

lemma Delete_trace_starts:
  "\<exists>evs. trace (snd (Delete x s user path w)) =
     trace w @ TreeGetRoot (getOrgId (GlobalOrgID x) user) RootResources # evs"
  by (simp add: Delete_def emit_def Let_def split: option.splits prod.splits)

lemma Upload_reads_tree_at_org:
  assumes "g (tree s) (getOrgId (GlobalOrgID x) user) RootResources =
           getRoot x (tree s) (getOrgId (GlobalOrgID x) user) RootResources"
  shows "Upload (x\<lparr>getRoot := g\<rparr>) s user req w = Upload x s user req w"
proof -
  have org: "GlobalOrgID (x\<lparr>getRoot := g\<rparr>) = GlobalOrgID x"
    and v: "validateUploadRequest (x\<lparr>getRoot := g\<rparr>) = validateUploadRequest x"
    and sn: "sanitizeUploadRequest (x\<lparr>getRoot := g\<rparr>) = sanitizeUploadRequest x"
    by simp_all
  have root: "getRoot (x\<lparr>getRoot := g\<rparr>) (tree s) (getOrgId (GlobalOrgID x) user)
                RootResources =
              getRoot x (tree s) (getOrgId (GlobalOrgID x) user) RootResources"
    using assms by simp
  show ?thesis
    unfolding Upload_def Let_def org v sn root ..
qed

lemma Delete_reads_tree_at_org:
  assumes "g (tree s) (getOrgId (GlobalOrgID x) user) RootResources =
           getRoot x (tree s) (getOrgId (GlobalOrgID x) user) RootResources"
  shows "Delete (x\<lparr>getRoot := g\<rparr>) s user path w = Delete x s user path w"
proof -
  have org: "GlobalOrgID (x\<lparr>getRoot := g\<rparr>) = GlobalOrgID x"
    by simp
  have root: "getRoot (x\<lparr>getRoot := g\<rparr>) (tree s) (getOrgId (GlobalOrgID x) user)
                RootResources =
              getRoot x (tree s) (getOrgId (GlobalOrgID x) user) RootResources"
    using assms by simp
  show ?thesis
    unfolding Delete_def Let_def org root ..
qed

text \<open>
  C8. \<open>getOrgId\<close> gives the global organization id for an absent caller and the caller's
  \<open>OrgId\<close> otherwise. Each of the four operations addresses the tree with that
  organization: List and Read pass it to \<open>ListFolder\<close> and \<open>GetFile\<close>, Upload and Delete
  look the upload root up under it, and their results do not change when the tree's
  lookup is replaced by one that agrees with it for that organization.
\<close>

theorem organization_of_caller:
  "getOrgId (GlobalOrgID x) None = GlobalOrgID x \<and>
   getOrgId (GlobalOrgID x) (Some u) = OrgId u \<and>
   List x s user path w =
     (ListFolder x (tree s) (getOrgId (GlobalOrgID x) user) path (store w),
      w\<lparr>trace := trace w @ [TreeListFolder (getOrgId (GlobalOrgID x) user) path]\<rparr>) \<and>
   Read x s user path w =
     (GetFile x (tree s) (getOrgId (GlobalOrgID x) user) path (store w),
      w\<lparr>trace := trace w @ [TreeGetFile (getOrgId (GlobalOrgID x) user) path]\<rparr>) \<and>
   (\<exists>evs. trace (snd (Upload x s user req w)) =
      trace w @ TreeGetRoot (getOrgId (GlobalOrgID x) user) RootResources # evs) \<and>
   (\<exists>evs. trace (snd (Delete x s user path w)) =
      trace w @ TreeGetRoot (getOrgId (GlobalOrgID x) user) RootResources # evs) \<and>
   (\<forall>g. g (tree s) (getOrgId (GlobalOrgID x) user) RootResources =
          getRoot x (tree s) (getOrgId (GlobalOrgID x) user) RootResources \<longrightarrow>
        Upload (x\<lparr>getRoot := g\<rparr>) s user req w = Upload x s user req w \<and>
        Delete (x\<lparr>getRoot := g\<rparr>) s user path w = Delete x s user path w)"
proof (intro conjI allI impI)
  show "getOrgId (GlobalOrgID x) None = GlobalOrgID x"
    by (simp add: getOrgId_def)
  show "getOrgId (GlobalOrgID x) (Some u) = OrgId u"
    by (simp add: getOrgId_def)
  show "List x s user path w =
     (ListFolder x (tree s) (getOrgId (GlobalOrgID x) user) path (store w),
      w\<lparr>trace := trace w @ [TreeListFolder (getOrgId (GlobalOrgID x) user) path]\<rparr>)"
    by (simp add: List_def emit_def Let_def)
  show "Read x s user path w =
     (GetFile x (tree s) (getOrgId (GlobalOrgID x) user) path (store w),
      w\<lparr>trace := trace w @ [TreeGetFile (getOrgId (GlobalOrgID x) user) path]\<rparr>)"
    by (simp add: Read_def emit_def Let_def)
  show "\<exists>evs. trace (snd (Upload x s user req w)) =
      trace w @ TreeGetRoot (getOrgId (GlobalOrgID x) user) RootResources # evs"
    by (rule Upload_trace_starts)
  show "\<exists>evs. trace (snd (Delete x s user path w)) =
      trace w @ TreeGetRoot (getOrgId (GlobalOrgID x) user) RootResources # evs"
    by (rule Delete_trace_starts)
next
  fix g
  assume a: "g (tree s) (getOrgId (GlobalOrgID x) user) RootResources =
          getRoot x (tree s) (getOrgId (GlobalOrgID x) user) RootResources"
  show "Upload (x\<lparr>getRoot := g\<rparr>) s user req w = Upload x s user req w"
    using a by (rule Upload_reads_tree_at_org)
  show "Delete (x\<lparr>getRoot := g\<rparr>) s user path w = Delete x s user path w"
    using a by (rule Delete_reads_tree_at_org)
qed

theorem organization_of_caller_witness:
  "getOrgId (GlobalOrgID (deployment memStorage)) None = 0 \<and>
   getOrgId (GlobalOrgID (deployment memStorage)) (Some member1) = 1 \<and>
   Read (deployment memStorage) service0 (Some member1) ''/a.txt'' world0 =
     ((Some [1, 2, 3], None), world0\<lparr>trace := [TreeGetFile 1 ''/a.txt'']\<rparr>) \<and>
   Upload ((deployment memStorage)
       \<lparr>getRoot := (\<lambda>t org name. if org = 0 then (None, []) else (Some brokenStorage, []))\<rparr>)
     service0 None (Some (request ''resources/a.txt'' [9] True)) world0 =
   Upload (deployment memStorage) service0 None
     (Some (request ''resources/a.txt'' [9] True)) world0"
proof -
  let ?x = "deployment memStorage"
  let ?g = "\<lambda>(t :: unit nestedTree) (org :: int64) (name :: string).
              if org = 0 then (None, []) else (Some brokenStorage, [])"
  let ?req = "Some (request ''resources/a.txt'' [9] True)"
  note member = organization_of_caller
    [of ?x member1 service0 "Some member1" "''/a.txt''" world0 ?req]
  note anonymous = organization_of_caller
    [of ?x member1 service0 None "''/a.txt''" world0 ?req]
  have g0: "GlobalOrgID ?x = 0"
    by (simp add: deployment_def)
  have org0: "getOrgId (GlobalOrgID ?x) None = 0"
    using anonymous [THEN conjunct1] by (simp only: g0)
  have org1: "getOrgId (GlobalOrgID ?x) (Some member1) = 1"
    using member [THEN conjunct2, THEN conjunct1] by (simp add: member1_def)
  have gf: "GetFile ?x (tree service0) 1 ''/a.txt'' (store world0) = (Some [1, 2, 3], None)"
    by (simp add: deployment_def world0_def)
  have tr: "trace world0 = []"
    by (simp add: world0_def)
  have rd: "Read ?x service0 (Some member1) ''/a.txt'' world0 =
     ((Some [1, 2, 3], None), world0\<lparr>trace := [TreeGetFile 1 ''/a.txt'']\<rparr>)"
    using member [THEN conjunct2, THEN conjunct2, THEN conjunct2, THEN conjunct1]
    by (simp only: org1 gf tr append_Nil)
  have agree: "?g (tree service0) (getOrgId (GlobalOrgID ?x) None) RootResources =
               getRoot ?x (tree service0) (getOrgId (GlobalOrgID ?x) None) RootResources"
    unfolding org0 by (simp add: deployment_def)
  have up: "Upload (?x\<lparr>getRoot := ?g\<rparr>) service0 None ?req world0 =
            Upload ?x service0 None ?req world0"
    using anonymous [THEN conjunct2, THEN conjunct2, THEN conjunct2, THEN conjunct2,
        THEN conjunct2, THEN conjunct2, THEN spec, of ?g, THEN mp, OF agree, THEN conjunct1] .
  show ?thesis
    using org0 org1 rd up by (intro conjI)
qed

subsection \<open>The constructor and the loader's error\<close>









end
